theory Spec2Isabelle
  imports Complex_Main "HOL-Library.Word"
begin

section \<open>The C++ the two files run on\<close>

text \<open>
  Both source files define the same class hierarchy (Shape, Circle, Polygon, Rectangle,
  Square, Trapezoid) and differ in how \<open>main\<close> owns the objects. The embedding reads
  \<^item> a \<open>double\<close> as an IEEE 754 binary64 value: every operation is rounded by
    itself to nearest, ties to even, with no fused multiply-add and no wider
    intermediate format, and a decimal literal is rounded the same way;
  \<^item> a \<open>double\<close> member that a constructor assigns only in its body as a
    \<open>double option\<close>, \<open>None\<close> being the indeterminate value before the assignment;
  \<^item> \<open>unsigned int\<close> as a 32-bit word;
  \<^item> \<open>cout\<close> as the list of the items written so far;
  \<^item> the free store as an association list from addresses to cells.
\<close>

subsection \<open>\<open>double\<close>\<close>

text \<open>
  A \<open>double\<close> is finite, with a sign (\<open>True\<close> for minus) and a magnitude, or an
  infinity with a sign, or not a number. A finite magnitude is \<open>m * 2 powi e\<close> with
  \<open>m < 2 ^ 53\<close> and \<open>- 1074 \<le> e \<le> 971\<close>; there are two zeros. The type has
  other magnitudes too, which no operation needs; what is proved for every value of
  the type holds for every \<open>double\<close>.
\<close>

datatype double = Finite bool real | Infinity bool | NaN

text \<open>Rounding to the nearest integer, a tie going to the even one.\<close>

definition rne :: "real \<Rightarrow> int" where
  "rne q =
     (let f = \<lfloor>q\<rfloor>
      in if q - of_int f < 1 / 2 then f
         else if 1 / 2 < q - of_int f then f + 1
         else if even f then f else f + 1)"

text \<open>
  The exponent of the last place of a positive real: 53 significant bits, and never
  below the exponent of the subnormal numbers.
\<close>

definition ulp_exp :: "real \<Rightarrow> int" where
  "ulp_exp x = max (\<lfloor>log 2 x\<rfloor> - 52) (- 1074)"

text \<open>
  Rounding of a magnitude to nearest, ties to even, with the exponent unbounded above;
  a result that reaches \<open>2 ^ 1024\<close> is beyond the largest finite number and becomes
  an infinity, a result that rounds to zero keeps the sign.
\<close>

definition round_mag :: "real \<Rightarrow> real" where
  "round_mag x =
     (if x = 0 then 0 else of_int (rne (x / 2 powi ulp_exp x)) * 2 powi ulp_exp x)"

definition fround :: "bool \<Rightarrow> real \<Rightarrow> double" where
  "fround s x = (let y = round_mag x in if 2 ^ 1024 \<le> y then Infinity s else Finite s y)"

text \<open>A decimal literal and the conversion of an \<open>int\<close>.\<close>

definition double_of_real :: "real \<Rightarrow> double" where
  "double_of_real x = fround (x < 0) \<bar>x\<bar>"

definition double_of_int :: "int \<Rightarrow> double" where
  "double_of_int i = double_of_real (of_int i)"

text \<open>
  The operations \<open>-x\<close>, \<open>x + y\<close>, \<open>x - y\<close>, \<open>x * y\<close> and \<open>x / y\<close>: the exact
  result, rounded. An exact sum of zero is \<open>+0\<close> unless both operands are negative.
\<close>

instantiation double :: "{uminus, plus, minus, times, inverse}"
begin

fun uminus_double :: "double \<Rightarrow> double" where
  "uminus_double (Finite s a) = Finite (\<not> s) a"
| "uminus_double (Infinity s) = Infinity (\<not> s)"
| "uminus_double NaN = NaN"

fun plus_double :: "double \<Rightarrow> double \<Rightarrow> double" where
  "plus_double NaN y = NaN"
| "plus_double x NaN = NaN"
| "plus_double (Infinity s) (Infinity t) = (if s = t then Infinity s else NaN)"
| "plus_double (Infinity s) (Finite t b) = Infinity s"
| "plus_double (Finite s a) (Infinity t) = Infinity t"
| "plus_double (Finite s a) (Finite t b) =
     (let r = (if s then - a else a) + (if t then - b else b)
      in if r = 0 then Finite (s \<and> t) 0 else fround (r < 0) \<bar>r\<bar>)"

definition minus_double :: "double \<Rightarrow> double \<Rightarrow> double" where
  "minus_double x y = x + (- y)"

fun times_double :: "double \<Rightarrow> double \<Rightarrow> double" where
  "times_double NaN y = NaN"
| "times_double x NaN = NaN"
| "times_double (Infinity s) (Infinity t) = Infinity (s \<noteq> t)"
| "times_double (Infinity s) (Finite t b) = (if b = 0 then NaN else Infinity (s \<noteq> t))"
| "times_double (Finite s a) (Infinity t) = (if a = 0 then NaN else Infinity (s \<noteq> t))"
| "times_double (Finite s a) (Finite t b) = fround (s \<noteq> t) (a * b)"

fun divide_double :: "double \<Rightarrow> double \<Rightarrow> double" where
  "divide_double NaN y = NaN"
| "divide_double x NaN = NaN"
| "divide_double (Infinity s) (Infinity t) = NaN"
| "divide_double (Infinity s) (Finite t b) = Infinity (s \<noteq> t)"
| "divide_double (Finite s a) (Infinity t) = Finite (s \<noteq> t) 0"
| "divide_double (Finite s a) (Finite t b) =
     (if b = 0 then (if a = 0 then NaN else Infinity (s \<noteq> t))
      else fround (s \<noteq> t) (a / b))"

definition inverse_double :: "double \<Rightarrow> double" where
  "inverse_double x = divide (Finite False 1) x"

instance ..

end

subsection \<open>Standard output\<close>

datatype out_item = Str string | Dbl double | Endl

type_synonym ostream = "out_item list"

subsection \<open>The free store\<close>

type_synonym addr = nat

datatype 'o cell = Raw | Double "double option" | Object 'o

type_synonym 'o heap = "(addr \<times> 'o cell) list"

datatype error = Invalid_delete | No_handle

text \<open>The allocator hands out an address that is not in use: one above every address in use.\<close>

definition fresh :: "'o heap \<Rightarrow> addr" where
  "fresh h = Suc (fold max (map fst h) 0)"

definition alloc :: "'o cell \<Rightarrow> 'o heap \<Rightarrow> addr \<times> 'o heap" where
  "alloc c h = (fresh h, (fresh h, c) # h)"

definition heap_write :: "addr \<Rightarrow> 'o cell \<Rightarrow> 'o heap \<Rightarrow> 'o heap" where
  "heap_write a c h = map (\<lambda>kv. if fst kv = a then (a, c) else kv) h"

text \<open>Releasing an address that is not allocated (a second \<open>delete\<close>, say) is an error.\<close>

definition free :: "addr \<Rightarrow> 'o heap \<Rightarrow> error + 'o heap" where
  "free a h =
     (case map_of h a of
        None \<Rightarrow> Inl Invalid_delete
      | Some c \<Rightarrow> Inr (filter (\<lambda>kv. fst kv \<noteq> a) h))"

text \<open>\<open>new double\<close>, \<open>*p = v\<close>, \<open>*p\<close> and \<open>delete p\<close> for a \<open>double*\<close>.\<close>

definition new_double :: "'o heap \<Rightarrow> addr \<times> 'o heap" where
  "new_double h = alloc (Double None) h"

definition store_double :: "addr \<Rightarrow> double \<Rightarrow> 'o heap \<Rightarrow> 'o heap" where
  "store_double p v h = heap_write p (Double (Some v)) h"

definition load_double :: "addr \<Rightarrow> 'o heap \<Rightarrow> double option" where
  "load_double p h = (case map_of h p of Some (Double v) \<Rightarrow> v | _ \<Rightarrow> None)"

definition delete_double :: "addr option \<Rightarrow> 'o heap \<Rightarrow> error + 'o heap" where
  "delete_double p h = (case p of None \<Rightarrow> Inl Invalid_delete | Some a \<Rightarrow> free a h)"

subsection \<open>\<open>cmath\<close>\<close>

text \<open>
  \<open>sqrt\<close> is the square root of IEEE 754, correctly rounded. \<open>pow\<close> is not held to
  that: the constructors of Trapezoid take the library's \<open>pow\<close> as a parameter, and
  nothing is assumed of it but what a statement says.
\<close>

fun sqrt_double :: "double \<Rightarrow> double" where
  "sqrt_double NaN = NaN"
| "sqrt_double (Infinity s) = (if s then NaN else Infinity False)"
| "sqrt_double (Finite s a) =
     (if a = 0 then Finite s 0 else if s then NaN else fround False (sqrt a))"

type_synonym pow_fn = "double \<Rightarrow> double \<Rightarrow> double"

section \<open>Shape.cc\<close>

definition PI :: double where
  "PI = double_of_real 3.14159"

subsection \<open>class Shape\<close>

record Shape =
  m_name :: string

definition Shape :: "string \<Rightarrow> Shape" where
  "Shape name = \<lparr>m_name = name\<rparr>"

text \<open>
  \<open>string& get_name(void) { return m_name; }\<close> returns a reference to the member: it
  can be read, and it can be assigned through (\<open>s.get_name() = v\<close>).
\<close>

definition Shape_get_name :: "'a Shape_scheme \<Rightarrow> string" where
  "Shape_get_name this = m_name this"

definition Shape_get_name_assign :: "'a Shape_scheme \<Rightarrow> string \<Rightarrow> 'a Shape_scheme" where
  "Shape_get_name_assign this v = this\<lparr>m_name := v\<rparr>"

subsection \<open>class Circle: public Shape\<close>

record Circle = Shape +
  m_radius :: double
  m_area :: "double option"
  m_perimeter :: "double option"

definition Circle :: "string \<Rightarrow> double \<Rightarrow> Circle" where
  "Circle name radius =
     (let this = Shape.extend (Shape name) (Circle.fields radius None None);
          this = this\<lparr>Circle.m_area := Some (radius * radius * PI)\<rparr>;
          this = this\<lparr>Circle.m_perimeter := Some (radius * double_of_int 2 * PI)\<rparr>
      in this)"

text \<open>
  The member functions are not \<open>const\<close>: each takes the object and \<open>cout\<close> and
  returns its result with the object and \<open>cout\<close> as it leaves them.
\<close>

definition Circle_get_area :: "Circle \<Rightarrow> ostream \<Rightarrow> double option \<times> Circle \<times> ostream" where
  "Circle_get_area this out = (Circle.m_area this, this, out)"

definition Circle_get_perimeter :: "Circle \<Rightarrow> ostream \<Rightarrow> double option \<times> Circle \<times> ostream" where
  "Circle_get_perimeter this out = (Circle.m_perimeter this, this, out)"

subsection \<open>class Polygon: public Shape\<close>

record Polygon = Shape +
  m_sides :: "32 word"
  m_area :: "double option"
  m_perimeter :: "double option"

definition Polygon :: "string \<Rightarrow> 32 word \<Rightarrow> Polygon" where
  "Polygon name sides = Shape.extend (Shape name) (Polygon.fields sides None None)"

definition Polygon_get_area ::
  "'a Polygon_scheme \<Rightarrow> ostream \<Rightarrow> double option \<times> 'a Polygon_scheme \<times> ostream" where
  "Polygon_get_area this out = (Polygon.m_area this, this, out)"

definition Polygon_get_perimeter ::
  "'a Polygon_scheme \<Rightarrow> ostream \<Rightarrow> double option \<times> 'a Polygon_scheme \<times> ostream" where
  "Polygon_get_perimeter this out = (Polygon.m_perimeter this, this, out)"

subsection \<open>class Rectangle: public Polygon\<close>

record Rectangle = Polygon +
  m_side1 :: double
  m_side2 :: double

definition Rectangle :: "string \<Rightarrow> double \<Rightarrow> double \<Rightarrow> Rectangle" where
  "Rectangle name side1 side2 =
     (let this = Polygon.extend (Polygon name 4) (Rectangle.fields side1 side2);
          this = this\<lparr>Polygon.m_area := Some (side1 * side2)\<rparr>;
          this = this\<lparr>Polygon.m_perimeter := Some ((side1 + side2) * double_of_int 2)\<rparr>
      in this)"

definition Rectangle_get_perimeter ::
  "'a Rectangle_scheme \<Rightarrow> ostream \<Rightarrow> double option \<times> 'a Rectangle_scheme \<times> ostream" where
  "Rectangle_get_perimeter this out = (Polygon.m_perimeter this, this, out)"

subsection \<open>class Square: public Rectangle\<close>

text \<open>Square adds no member.\<close>

type_synonym Square = Rectangle

definition Square :: "string \<Rightarrow> double \<Rightarrow> Square" where
  "Square name side = Rectangle name side side"

definition Square_get_area :: "Square \<Rightarrow> ostream \<Rightarrow> double option \<times> Square \<times> ostream" where
  "Square_get_area this out =
     (let out = out @ [Str ''The square of '', Dbl (m_side1 this), Str ''!'', Endl]
      in (Polygon.m_area this, this, out))"

subsection \<open>class Trapezoid: public Polygon\<close>

record Trapezoid = Polygon +
  m_long_side :: double
  m_short_side :: double
  m_height :: double
  m_angled_side_length :: "addr option"

definition Trapezoid ::
  "pow_fn \<Rightarrow> string \<Rightarrow> double \<Rightarrow> double \<Rightarrow> double \<Rightarrow> 'o heap \<Rightarrow> Trapezoid \<times> 'o heap" where
  "Trapezoid pow name long_side short_side height h =
     (let this = Polygon.extend (Polygon name 4)
                   (Trapezoid.fields long_side short_side height None);
          this = this\<lparr>Polygon.m_area := Some (height * (long_side + short_side) / double_of_int 2)\<rparr>;
          (p, h) = new_double h;
          this = this\<lparr>m_angled_side_length := Some p\<rparr>;
          h = store_double p
                (sqrt_double (pow ((long_side - short_side) / double_of_int 2) (double_of_int 2)
                              + pow height (double_of_int 2))) h;
          this = this\<lparr>Polygon.m_perimeter :=
                   map_option (\<lambda>a. short_side + long_side + double_of_int 2 * a)
                     (load_double p h)\<rparr>
      in (this, h))"

definition Trapezoid_dtor :: "Trapezoid \<Rightarrow> 'o heap \<Rightarrow> error + 'o heap" where
  "Trapezoid_dtor this h = delete_double (m_angled_side_length this) h"

subsection \<open>Objects and virtual calls\<close>

text \<open>
  A complete object carries its dynamic class. Shape is abstract (two pure virtual
  functions, a protected constructor), so no complete object has that class.
\<close>

datatype object =
    Circle_object Circle
  | Polygon_object Polygon
  | Rectangle_object Rectangle
  | Square_object Square
  | Trapezoid_object Trapezoid

datatype cls = Shape_cls | Circle_cls | Polygon_cls | Rectangle_cls | Square_cls | Trapezoid_cls

fun dynamic_class :: "object \<Rightarrow> cls" where
  "dynamic_class (Circle_object c) = Circle_cls"
| "dynamic_class (Polygon_object p) = Polygon_cls"
| "dynamic_class (Rectangle_object r) = Rectangle_cls"
| "dynamic_class (Square_object q) = Square_cls"
| "dynamic_class (Trapezoid_object t) = Trapezoid_cls"

text \<open>\<open>s.get_name()\<close> through a handle of any class: the one function of Shape.\<close>

fun get_name :: "object \<Rightarrow> string" where
  "get_name (Circle_object c) = Shape_get_name c"
| "get_name (Polygon_object p) = Shape_get_name p"
| "get_name (Rectangle_object r) = Shape_get_name r"
| "get_name (Square_object q) = Shape_get_name q"
| "get_name (Trapezoid_object t) = Shape_get_name t"

fun get_name_assign :: "object \<Rightarrow> string \<Rightarrow> object" where
  "get_name_assign (Circle_object c) v = Circle_object (Shape_get_name_assign c v)"
| "get_name_assign (Polygon_object p) v = Polygon_object (Shape_get_name_assign p v)"
| "get_name_assign (Rectangle_object r) v = Rectangle_object (Shape_get_name_assign r v)"
| "get_name_assign (Square_object q) v = Square_object (Shape_get_name_assign q v)"
| "get_name_assign (Trapezoid_object t) v = Trapezoid_object (Shape_get_name_assign t v)"

text \<open>
  \<open>s.get_area()\<close> and \<open>s.get_perimeter()\<close> are virtual: the final overrider of the
  dynamic class runs. Rectangle and Trapezoid inherit Polygon's \<open>get_area\<close>, Square
  overrides it; Rectangle's \<open>get_perimeter\<close> is final, Trapezoid inherits Polygon's.
\<close>

fun get_area :: "object \<Rightarrow> ostream \<Rightarrow> double option \<times> object \<times> ostream" where
  "get_area (Circle_object c) out =
     (case Circle_get_area c out of (v, c', out') \<Rightarrow> (v, Circle_object c', out'))"
| "get_area (Polygon_object p) out =
     (case Polygon_get_area p out of (v, p', out') \<Rightarrow> (v, Polygon_object p', out'))"
| "get_area (Rectangle_object r) out =
     (case Polygon_get_area r out of (v, r', out') \<Rightarrow> (v, Rectangle_object r', out'))"
| "get_area (Square_object q) out =
     (case Square_get_area q out of (v, q', out') \<Rightarrow> (v, Square_object q', out'))"
| "get_area (Trapezoid_object t) out =
     (case Polygon_get_area t out of (v, t', out') \<Rightarrow> (v, Trapezoid_object t', out'))"

fun get_perimeter :: "object \<Rightarrow> ostream \<Rightarrow> double option \<times> object \<times> ostream" where
  "get_perimeter (Circle_object c) out =
     (case Circle_get_perimeter c out of (v, c', out') \<Rightarrow> (v, Circle_object c', out'))"
| "get_perimeter (Polygon_object p) out =
     (case Polygon_get_perimeter p out of (v, p', out') \<Rightarrow> (v, Polygon_object p', out'))"
| "get_perimeter (Rectangle_object r) out =
     (case Rectangle_get_perimeter r out of (v, r', out') \<Rightarrow> (v, Rectangle_object r', out'))"
| "get_perimeter (Square_object q) out =
     (case Rectangle_get_perimeter q out of (v, q', out') \<Rightarrow> (v, Square_object q', out'))"
| "get_perimeter (Trapezoid_object t) out =
     (case Polygon_get_perimeter t out of (v, t', out') \<Rightarrow> (v, Trapezoid_object t', out'))"

subsection \<open>Destruction\<close>

text \<open>
  Every destructor of the hierarchy is declared \<open>virtual\<close>; only \<open>~Trapezoid\<close> has a
  body that does something.
\<close>

fun virtual_dtor :: "cls \<Rightarrow> bool" where
  "virtual_dtor Shape_cls = True"
| "virtual_dtor Circle_cls = True"
| "virtual_dtor Polygon_cls = True"
| "virtual_dtor Rectangle_cls = True"
| "virtual_dtor Square_cls = True"
| "virtual_dtor Trapezoid_cls = True"

fun dtor_body :: "cls \<Rightarrow> object \<Rightarrow> 'o heap \<Rightarrow> error + 'o heap" where
  "dtor_body Trapezoid_cls (Trapezoid_object t) h = Trapezoid_dtor t h"
| "dtor_body C obj h = Inr h"

text \<open>
  Destroying an object as a \<open>C\<close> runs the destructor of \<open>C\<close> and then those of its
  bases, most derived first (\<open>class Circle: public Shape\<close> and so on).
\<close>

fun dtor_chain :: "cls \<Rightarrow> cls list" where
  "dtor_chain Shape_cls = [Shape_cls]"
| "dtor_chain Circle_cls = [Circle_cls, Shape_cls]"
| "dtor_chain Polygon_cls = [Polygon_cls, Shape_cls]"
| "dtor_chain Rectangle_cls = [Rectangle_cls, Polygon_cls, Shape_cls]"
| "dtor_chain Square_cls = [Square_cls, Rectangle_cls, Polygon_cls, Shape_cls]"
| "dtor_chain Trapezoid_cls = [Trapezoid_cls, Polygon_cls, Shape_cls]"

fun run_dtors :: "cls list \<Rightarrow> object \<Rightarrow> 'o heap \<Rightarrow> error + 'o heap" where
  "run_dtors [] obj h = Inr h"
| "run_dtors (C # Cs) obj h =
     (case dtor_body C obj h of Inl e \<Rightarrow> Inl e | Inr h' \<Rightarrow> run_dtors Cs obj h')"

text \<open>
  \<open>delete p\<close> for \<open>p\<close> of static type \<open>T*\<close>. With a virtual destructor in \<open>T\<close> the
  object is destroyed as its dynamic class; without one, as the source's comment has it,
  "deleting a Polygon pointer would only call the destructor for the base class". Then
  the object's own storage is released.
\<close>

definition delete_expr :: "cls \<Rightarrow> addr \<Rightarrow> object heap \<Rightarrow> error + object heap" where
  "delete_expr T p h =
     (case map_of h p of
        Some (Object obj) \<Rightarrow>
          (let D = (if virtual_dtor T then dynamic_class obj else T)
           in case run_dtors (dtor_chain D) obj h of
                Inl e \<Rightarrow> Inl e
              | Inr h' \<Rightarrow> free p h')
      | _ \<Rightarrow> Inl Invalid_delete)"

subsection \<open>Construction on the free store\<close>

datatype ctor_call =
    New_Circle string double
  | New_Polygon string "32 word"
  | New_Rectangle string double double
  | New_Square string double
  | New_Trapezoid string double double double


fun run_ctor :: "pow_fn \<Rightarrow> ctor_call \<Rightarrow> 'o heap \<Rightarrow> object \<times> 'o heap" where
  "run_ctor pow (New_Circle name radius) h = (Circle_object (Circle name radius), h)"
| "run_ctor pow (New_Polygon name sides) h = (Polygon_object (Polygon name sides), h)"
| "run_ctor pow (New_Rectangle name side1 side2) h =
     (Rectangle_object (Rectangle name side1 side2), h)"
| "run_ctor pow (New_Square name side) h = (Square_object (Square name side), h)"
| "run_ctor pow (New_Trapezoid name long_side short_side height) h =
     (case Trapezoid pow name long_side short_side height h of
        (t, h') \<Rightarrow> (Trapezoid_object t, h'))"

text \<open>\<open>new C(args)\<close>: storage for the object first, then the constructor.\<close>

definition new_expr :: "pow_fn \<Rightarrow> ctor_call \<Rightarrow> object heap \<Rightarrow> addr \<times> object heap" where
  "new_expr pow c h =
     (let (p, h) = alloc Raw h;
          (obj, h) = run_ctor pow c h
      in (p, heap_write p (Object obj) h))"

subsection \<open>Owning handles\<close>












section \<open>Shape\_RAII.cc (src/unnamed/part\_000)\<close>

text \<open>
  The second file declares its own constant and its own classes. Its members have the
  names of the first file's, told apart by the class: \<open>Shape_RAII.m_name\<close>.
\<close>

definition PI_RAII :: double where
  "PI_RAII = double_of_real 3.14159"

record Shape_RAII =
  m_name :: string

definition Shape_RAII :: "string \<Rightarrow> Shape_RAII" where
  "Shape_RAII name = \<lparr>Shape_RAII.m_name = name\<rparr>"

definition Shape_get_name_RAII :: "'a Shape_RAII_scheme \<Rightarrow> string" where
  "Shape_get_name_RAII this = Shape_RAII.m_name this"

record Circle_RAII = Shape_RAII +
  m_radius :: double
  m_area :: "double option"
  m_perimeter :: "double option"

definition Circle_RAII :: "string \<Rightarrow> double \<Rightarrow> Circle_RAII" where
  "Circle_RAII name radius =
     (let this = Shape_RAII.extend (Shape_RAII name) (Circle_RAII.fields radius None None);
          this = this\<lparr>Circle_RAII.m_area := Some (radius * radius * PI_RAII)\<rparr>;
          this = this\<lparr>Circle_RAII.m_perimeter := Some (radius * double_of_int 2 * PI_RAII)\<rparr>
      in this)"

definition Circle_get_area_RAII ::
  "Circle_RAII \<Rightarrow> ostream \<Rightarrow> double option \<times> Circle_RAII \<times> ostream" where
  "Circle_get_area_RAII this out = (Circle_RAII.m_area this, this, out)"

definition Circle_get_perimeter_RAII ::
  "Circle_RAII \<Rightarrow> ostream \<Rightarrow> double option \<times> Circle_RAII \<times> ostream" where
  "Circle_get_perimeter_RAII this out = (Circle_RAII.m_perimeter this, this, out)"

record Polygon_RAII = Shape_RAII +
  m_sides :: "32 word"
  m_area :: "double option"
  m_perimeter :: "double option"

definition Polygon_RAII :: "string \<Rightarrow> 32 word \<Rightarrow> Polygon_RAII" where
  "Polygon_RAII name sides =
     Shape_RAII.extend (Shape_RAII name) (Polygon_RAII.fields sides None None)"

definition Polygon_get_area_RAII ::
  "'a Polygon_RAII_scheme \<Rightarrow> ostream \<Rightarrow> double option \<times> 'a Polygon_RAII_scheme \<times> ostream" where
  "Polygon_get_area_RAII this out = (Polygon_RAII.m_area this, this, out)"

definition Polygon_get_perimeter_RAII ::
  "'a Polygon_RAII_scheme \<Rightarrow> ostream \<Rightarrow> double option \<times> 'a Polygon_RAII_scheme \<times> ostream" where
  "Polygon_get_perimeter_RAII this out = (Polygon_RAII.m_perimeter this, this, out)"

record Rectangle_RAII = Polygon_RAII +
  m_side1 :: double
  m_side2 :: double

definition Rectangle_RAII :: "string \<Rightarrow> double \<Rightarrow> double \<Rightarrow> Rectangle_RAII" where
  "Rectangle_RAII name side1 side2 =
     (let this = Polygon_RAII.extend (Polygon_RAII name 4) (Rectangle_RAII.fields side1 side2);
          this = this\<lparr>Polygon_RAII.m_area := Some (side1 * side2)\<rparr>;
          this = this\<lparr>Polygon_RAII.m_perimeter := Some ((side1 + side2) * double_of_int 2)\<rparr>
      in this)"

definition Rectangle_get_perimeter_RAII ::
  "'a Rectangle_RAII_scheme \<Rightarrow> ostream \<Rightarrow> double option \<times> 'a Rectangle_RAII_scheme \<times> ostream"
  where
  "Rectangle_get_perimeter_RAII this out = (Polygon_RAII.m_perimeter this, this, out)"

type_synonym Square_RAII = Rectangle_RAII

definition Square_RAII :: "string \<Rightarrow> double \<Rightarrow> Square_RAII" where
  "Square_RAII name side = Rectangle_RAII name side side"

definition Square_get_area_RAII ::
  "Square_RAII \<Rightarrow> ostream \<Rightarrow> double option \<times> Square_RAII \<times> ostream" where
  "Square_get_area_RAII this out =
     (let out = out @ [Str ''The square of '', Dbl (Rectangle_RAII.m_side1 this), Str ''!'', Endl]
      in (Polygon_RAII.m_area this, this, out))"

record Trapezoid_RAII = Polygon_RAII +
  m_long_side :: double
  m_short_side :: double
  m_height :: double
  m_angled_side_length :: "addr option"

definition Trapezoid_RAII ::
  "pow_fn \<Rightarrow> string \<Rightarrow> double \<Rightarrow> double \<Rightarrow> double \<Rightarrow> 'o heap \<Rightarrow> Trapezoid_RAII \<times> 'o heap" where
  "Trapezoid_RAII pow name long_side short_side height h =
     (let this = Polygon_RAII.extend (Polygon_RAII name 4)
                   (Trapezoid_RAII.fields long_side short_side height None);
          this = this\<lparr>Polygon_RAII.m_area := Some (height * (long_side + short_side) / double_of_int 2)\<rparr>;
          (p, h) = new_double h;
          this = this\<lparr>Trapezoid_RAII.m_angled_side_length := Some p\<rparr>;
          h = store_double p
                (sqrt_double (pow ((long_side - short_side) / double_of_int 2) (double_of_int 2)
                              + pow height (double_of_int 2))) h;
          this = this\<lparr>Polygon_RAII.m_perimeter :=
                   map_option (\<lambda>a. short_side + long_side + double_of_int 2 * a)
                     (load_double p h)\<rparr>
      in (this, h))"

datatype object_RAII =
    Circle_object_RAII Circle_RAII
  | Polygon_object_RAII Polygon_RAII
  | Rectangle_object_RAII Rectangle_RAII
  | Square_object_RAII Square_RAII
  | Trapezoid_object_RAII Trapezoid_RAII

fun get_name_RAII :: "object_RAII \<Rightarrow> string" where
  "get_name_RAII (Circle_object_RAII c) = Shape_get_name_RAII c"
| "get_name_RAII (Polygon_object_RAII p) = Shape_get_name_RAII p"
| "get_name_RAII (Rectangle_object_RAII r) = Shape_get_name_RAII r"
| "get_name_RAII (Square_object_RAII q) = Shape_get_name_RAII q"
| "get_name_RAII (Trapezoid_object_RAII t) = Shape_get_name_RAII t"

fun get_area_RAII :: "object_RAII \<Rightarrow> ostream \<Rightarrow> double option \<times> object_RAII \<times> ostream" where
  "get_area_RAII (Circle_object_RAII c) out =
     (case Circle_get_area_RAII c out of (v, c', out') \<Rightarrow> (v, Circle_object_RAII c', out'))"
| "get_area_RAII (Polygon_object_RAII p) out =
     (case Polygon_get_area_RAII p out of (v, p', out') \<Rightarrow> (v, Polygon_object_RAII p', out'))"
| "get_area_RAII (Rectangle_object_RAII r) out =
     (case Polygon_get_area_RAII r out of (v, r', out') \<Rightarrow> (v, Rectangle_object_RAII r', out'))"
| "get_area_RAII (Square_object_RAII q) out =
     (case Square_get_area_RAII q out of (v, q', out') \<Rightarrow> (v, Square_object_RAII q', out'))"
| "get_area_RAII (Trapezoid_object_RAII t) out =
     (case Polygon_get_area_RAII t out of (v, t', out') \<Rightarrow> (v, Trapezoid_object_RAII t', out'))"

fun get_perimeter_RAII :: "object_RAII \<Rightarrow> ostream \<Rightarrow> double option \<times> object_RAII \<times> ostream"
  where
  "get_perimeter_RAII (Circle_object_RAII c) out =
     (case Circle_get_perimeter_RAII c out of
        (v, c', out') \<Rightarrow> (v, Circle_object_RAII c', out'))"
| "get_perimeter_RAII (Polygon_object_RAII p) out =
     (case Polygon_get_perimeter_RAII p out of
        (v, p', out') \<Rightarrow> (v, Polygon_object_RAII p', out'))"
| "get_perimeter_RAII (Rectangle_object_RAII r) out =
     (case Rectangle_get_perimeter_RAII r out of
        (v, r', out') \<Rightarrow> (v, Rectangle_object_RAII r', out'))"
| "get_perimeter_RAII (Square_object_RAII q) out =
     (case Rectangle_get_perimeter_RAII q out of
        (v, q', out') \<Rightarrow> (v, Square_object_RAII q', out'))"
| "get_perimeter_RAII (Trapezoid_object_RAII t) out =
     (case Polygon_get_perimeter_RAII t out of
        (v, t', out') \<Rightarrow> (v, Trapezoid_object_RAII t', out'))"

fun run_ctor_RAII :: "pow_fn \<Rightarrow> ctor_call \<Rightarrow> 'o heap \<Rightarrow> object_RAII \<times> 'o heap" where
  "run_ctor_RAII pow (New_Circle name radius) h =
     (Circle_object_RAII (Circle_RAII name radius), h)"
| "run_ctor_RAII pow (New_Polygon name sides) h =
     (Polygon_object_RAII (Polygon_RAII name sides), h)"
| "run_ctor_RAII pow (New_Rectangle name side1 side2) h =
     (Rectangle_object_RAII (Rectangle_RAII name side1 side2), h)"
| "run_ctor_RAII pow (New_Square name side) h =
     (Square_object_RAII (Square_RAII name side), h)"
| "run_ctor_RAII pow (New_Trapezoid name long_side short_side height) h =
     (case Trapezoid_RAII pow name long_side short_side height h of
        (t, h') \<Rightarrow> (Trapezoid_object_RAII t, h'))"

section \<open>Properties\<close>

subsection \<open>Rounding\<close>

lemma rne_of_int [simp]: "rne (of_int n) = n"
  by (simp add: rne_def)

lemma rne_between:
  assumes "of_int n - 1 / 2 < q" and "q < of_int n + 1 / 2"
  shows "rne q = n"
proof -
  have "\<lfloor>q\<rfloor> = n \<or> \<lfloor>q\<rfloor> = n - 1" using assms by linarith
  then show ?thesis
  proof
    assume "\<lfloor>q\<rfloor> = n"
    then show ?thesis using assms by (simp add: rne_def)
  next
    assume "\<lfloor>q\<rfloor> = n - 1"
    then show ?thesis using assms by (simp add: rne_def)
  qed
qed

lemma rne_tie_even:
  assumes "q = of_int n + 1 / 2" and "even n"
  shows "rne q = n"
proof -
  have "\<lfloor>q\<rfloor> = n" using assms(1) by linarith
  then show ?thesis using assms by (simp add: rne_def)
qed

lemma rne_gt: "q - 1 < of_int (rne q)"
proof -
  have "q - 1 < of_int \<lfloor>q\<rfloor>" by linarith
  moreover have "\<lfloor>q\<rfloor> \<le> rne q" by (simp add: rne_def Let_def)
  ultimately show ?thesis by linarith
qed

lemma floor_log2_eq:
  assumes "2 powi k \<le> x" and "x < 2 powi (k + 1)"
  shows "\<lfloor>log 2 x\<rfloor> = k"
proof -
  have pos: "0 < x" using assms(1) by (smt (verit) zero_less_power_int)
  have "2 powr (real_of_int k) = (2::real) powi k"
    by (simp add: powr_real_of_int')
  moreover have "2 powr (real_of_int (k + 1)) = (2::real) powi (k + 1)"
    by (rule powr_real_of_int') simp_all
  ultimately show ?thesis using floor_log_eq_powr_iff [of x 2 k] pos assms by simp
qed

lemma round_mag_binade:
  assumes "2 powi k \<le> x" and "x < 2 powi (k + 1)" and "- 1022 \<le> k"
  shows "round_mag x = of_int (rne (x / 2 powi (k - 52))) * 2 powi (k - 52)"
proof -
  have pos: "0 < x" using assms(1) by (smt (verit) zero_less_power_int)
  have "ulp_exp x = k - 52"
    using floor_log2_eq [OF assms(1,2)] assms(3) by (simp add: ulp_exp_def)
  then show ?thesis using pos by (simp add: round_mag_def)
qed

text \<open>A number with 53 bits and an exponent in range is its own rounding.\<close>

lemma round_mag_representable:
  assumes "m < 2 ^ 53" and "- 1074 \<le> e"
  shows "round_mag (of_nat m * 2 powi e) = of_nat m * 2 powi e"
proof (cases "m = 0")
  case True
  then show ?thesis by (simp add: round_mag_def)
next
  case False
  let ?x = "real m * 2 powi e"
  have pos: "0 < ?x" using False by simp
  define k where "k = \<lfloor>log 2 ?x\<rfloor>"
  have "2 powr (real_of_int k) \<le> ?x"
    using floor_log_eq_powr_iff [of ?x 2 k] pos by (simp add: k_def)
  then have lo: "2 powi k \<le> ?x" by (simp add: powr_real_of_int')
  have "real m < 2 ^ 53"
    using assms(1) by (metis of_nat_less_iff of_nat_numeral of_nat_power)
  then have "?x < 2 ^ 53 * 2 powi e" by simp
  also have "\<dots> = 2 powi (53 + e)" by (simp add: power_int_add)
  finally have "(2::real) powi k < 2 powi (53 + e)" using lo by simp
  then have "k < 53 + e"
    using power_int_increasing [of "53 + e" k "2::real"] by (cases "k < 53 + e") simp_all
  then have u: "ulp_exp ?x \<le> e" using assms(2) by (simp add: ulp_exp_def k_def)
  define d where "d = nat (e - ulp_exp ?x)"
  have e: "e = ulp_exp ?x + int d" using u by (simp add: d_def)
  have "?x / 2 powi ulp_exp ?x = real m * 2 ^ d"
    by (subst e) (simp add: power_int_add)
  also have "\<dots> = of_int (int m * 2 ^ d)" by simp
  finally have "rne (?x / 2 powi ulp_exp ?x) = int m * 2 ^ d" by (simp only: rne_of_int)
  then have "round_mag ?x = real m * 2 ^ d * 2 powi ulp_exp ?x"
    using pos by (simp add: round_mag_def)
  also have "\<dots> = ?x" by (subst (2) e) (simp add: power_int_add)
  finally show ?thesis .
qed

lemma fround_exact:
  assumes "x = real m * 2 powi e" and "m < 2 ^ 53" and "- 1074 \<le> e" and "x < 2 ^ 1024"
  shows "fround s x = Finite s x"
  using round_mag_representable [OF assms(2,3)] assms(1,4) by (simp add: fround_def)

lemma fround_0 [simp]: "fround s 0 = Finite s 0"
  by (simp add: fround_def round_mag_def)

lemma fround_1 [simp]: "fround s 1 = Finite s 1"
  by (rule fround_exact [where m = 1 and e = 0]) simp_all

lemma fround_numeral [simp]:
  assumes "numeral n < (2 ^ 53 :: nat)"
  shows "fround s (numeral n) = Finite s (numeral n)"
proof (rule fround_exact [where m = "numeral n" and e = 0])
  have "real (numeral n) < real (2 ^ 53)" using assms by (simp only: of_nat_less_iff)
  then have "(numeral n :: real) < 2 ^ 53" by simp
  also have "(2 ^ 53 :: real) < 2 ^ 1024" by simp
  finally show "(numeral n :: real) < 2 ^ 1024" .
qed (use assms in simp_all)

lemma double_of_int_numeral [simp]:
  "numeral n < (2 ^ 53 :: nat) \<Longrightarrow> double_of_int (numeral n) = Finite False (numeral n)"
  by (simp add: double_of_int_def double_of_real_def)

lemma double_of_int_neg_numeral [simp]:
  "numeral n < (2 ^ 53 :: nat) \<Longrightarrow> double_of_int (- numeral n) = Finite True (numeral n)"
  by (simp add: double_of_int_def double_of_real_def)

lemma double_of_int_0 [simp]: "double_of_int 0 = Finite False 0"
  by (simp add: double_of_int_def double_of_real_def)

lemma double_of_int_1 [simp]: "double_of_int 1 = Finite False 1"
  by (simp add: double_of_int_def double_of_real_def)

lemma double_of_int_neg_1 [simp]: "double_of_int (- 1) = Finite True 1"
  by (simp add: double_of_int_def double_of_real_def)

lemma times_double_commute: "(x::double) * y = y * x"
proof -
  have h: "(s = (\<not> t)) = (t = (\<not> s))" for s t :: bool by auto
  show ?thesis by (cases x; cases y) (simp_all add: mult.commute h)
qed

subsection \<open>The values the statements name\<close>

lemma literal_314159: "double_of_real 3.14159 = Finite False (3537115888337719 / 2 ^ 50)"
proof -
  have "round_mag 3.14159 = of_int (rne (3.14159 / 2 powi (1 - 52))) * 2 powi (1 - 52)"
    by (rule round_mag_binade) simp_all
  moreover have "rne (3.14159 / 2 powi (1 - 52)) = 7074231776675438"
    by (rule rne_between) simp_all
  ultimately have "round_mag 3.14159 = 3537115888337719 / 2 ^ 50" by simp
  then show ?thesis by (simp add: double_of_real_def fround_def)
qed

lemma PI_value: "PI = Finite False (3537115888337719 / 2 ^ 50)"
  unfolding PI_def by (rule literal_314159)

lemma fround_PI: "fround s (3537115888337719 / 2 ^ 50) = Finite s (3537115888337719 / 2 ^ 50)"
  by (rule fround_exact [where m = 3537115888337719 and e = "- 50"]) simp_all


lemma fround_6_PI:
  "fround s (6 * (3537115888337719 / 2 ^ 50)) = Finite s (2652836916253289 / 2 ^ 47)"
proof -
  let ?x = "6 * (3537115888337719 / 2 ^ 50) :: real"
  have "round_mag ?x = of_int (rne (?x / 2 powi (4 - 52))) * 2 powi (4 - 52)"
    by (rule round_mag_binade) simp_all
  moreover have "rne (?x / 2 powi (4 - 52)) = 5305673832506578"
    by (rule rne_tie_even) simp_all
  ultimately have "round_mag ?x = 2652836916253289 / 2 ^ 47" by simp
  then show ?thesis by (simp add: fround_def)
qed





lemma fround_2_53_plus_1: "fround s (2 ^ 53 + 1) = Finite s (2 ^ 53)"
proof -
  let ?x = "2 ^ 53 + 1 :: real"
  have "round_mag ?x = of_int (rne (?x / 2 powi (53 - 52))) * 2 powi (53 - 52)"
    by (rule round_mag_binade) simp_all
  moreover have "rne (?x / 2 powi (53 - 52)) = 2 ^ 52"
    by (rule rne_tie_even) simp_all
  ultimately have "round_mag ?x = 2 ^ 53" by simp
  then show ?thesis by (simp add: fround_def)
qed

lemma fround_2_54: "fround s (2 ^ 54) = Finite s (2 ^ 54)"
  by (rule fround_exact [where m = 1 and e = 54]) simp_all


text \<open>The arithmetic of the instances, one operation at a time.\<close>

lemma one_times_PI: "double_of_int 1 * double_of_int 1 * PI = PI"
proof -
  have "double_of_int 1 * double_of_int 1 * PI = fround False (3537115888337719 / 2 ^ 50)"
    by (simp add: PI_value)
  then show ?thesis by (simp only: fround_PI PI_value)
qed

lemma three_times_2_PI:
  "double_of_int 3 * double_of_int 2 * PI = Finite False (2652836916253289 / 2 ^ 47)"
proof -
  have "double_of_int 3 * double_of_int 2 * PI
          = fround False (6 * (3537115888337719 / 2 ^ 50))"
    by (simp add: PI_value)
  then show ?thesis by (simp only: fround_6_PI)
qed



lemma literal_one_tenth: "double_of_real 0.1 = Finite False (3602879701896397 / 2 ^ 55)"
proof -
  have "round_mag 0.1 = of_int (rne (0.1 / 2 powi (- 4 - 52))) * 2 powi (- 4 - 52)"
    by (rule round_mag_binade) simp_all
  moreover have "rne (0.1 / 2 powi (- 4 - 52)) = 7205759403792794"
    by (rule rne_between) simp_all
  ultimately have "round_mag 0.1 = 3602879701896397 / 2 ^ 55" by simp
  then show ?thesis by (simp add: double_of_real_def fround_def)
qed

lemma fround_one_tenth_squared:
  "fround s (3602879701896397 / 2 ^ 55 * (3602879701896397 / 2 ^ 55))
     = Finite s (1441151880758559 / 2 ^ 57)"
proof -
  let ?x = "3602879701896397 / 2 ^ 55 * (3602879701896397 / 2 ^ 55) :: real"
  have "round_mag ?x = of_int (rne (?x / 2 powi (- 7 - 52))) * 2 powi (- 7 - 52)"
    by (rule round_mag_binade) simp_all
  moreover have "rne (?x / 2 powi (- 7 - 52)) = 5764607523034236"
    by (rule rne_between) simp_all
  ultimately have "round_mag ?x = 1441151880758559 / 2 ^ 57" by simp
  then show ?thesis by (simp add: fround_def)
qed

lemma one_tenth_squared:
  "double_of_real 0.1 * double_of_real 0.1 = Finite False (1441151880758559 / 2 ^ 57)"
proof -
  have "Finite False (3602879701896397 / 2 ^ 55) * Finite False (3602879701896397 / 2 ^ 55)
          = fround False (3602879701896397 / 2 ^ 55 * (3602879701896397 / 2 ^ 55))"
    by simp
  then show ?thesis by (simp only: literal_one_tenth fround_one_tenth_squared)
qed

subsection \<open>The constant and \<open>\<pi>\<close>\<close>

lemma arctan_enclosure:
  fixes x :: real
  assumes "0 < x" "x \<le> 1"
  shows "(\<Sum>i<2*n. (- 1) ^ i * (1 / real (i * 2 + 1) * x ^ (i * 2 + 1))) \<le> arctan x"
    and "arctan x \<le> (\<Sum>i<2*n+1. (- 1) ^ i * (1 / real (i * 2 + 1) * x ^ (i * 2 + 1)))"
proof -
  let ?a = "\<lambda>k. 1 / real (k * 2 + 1) * x ^ (k * 2 + 1)"
  have ax: "\<bar>x\<bar> \<le> 1" using assms by simp
  have pos: "0 < ?a 0" using assms by simp
  have "(\<Sum>i. (- 1) ^ i * ?a i)
          \<in> {\<Sum>i<2*n. (- 1) ^ i * ?a i .. \<Sum>i<2*n+1. (- 1) ^ i * ?a i}"
    using summable_Leibniz(2) [OF zeroseq_arctan_series [OF ax] monoseq_arctan_series [OF ax]]
      pos by blast
  then show "(\<Sum>i<2*n. (- 1) ^ i * ?a i) \<le> arctan x"
    and "arctan x \<le> (\<Sum>i<2*n+1. (- 1) ^ i * ?a i)"
    by (simp_all add: arctan_series [OF ax])
qed

lemma pi_gt_3141591: "3.141591 < pi"
proof -
  have lo: "1/5 - 1/375 + 1/15625 - 1/546875 \<le> arctan (1/5 :: real)"
    using arctan_enclosure(1) [of "1/5" 2] by (simp add: eval_nat_numeral)
  have hi: "arctan (1/239 :: real) \<le> 1/239"
    using arctan_enclosure(2) [of "1/239" 0] by simp
  have "pi = 16 * arctan (1/5) - 4 * arctan (1/239)"
    using machin by simp
  then show ?thesis using lo hi by simp
qed

lemma PI_value_less_pi: "3537115888337719 / 2 ^ 50 < pi"
proof -
  have "(3537115888337719 / 2 ^ 50 :: real) < 3.141591" by simp
  then show ?thesis using pi_gt_3141591 by linarith
qed

text \<open>The literal is not the \<open>double\<close> nearest to \<open>\<pi>\<close> either.\<close>

lemma double_of_pi_neq: "double_of_real pi \<noteq> Finite False (3537115888337719 / 2 ^ 50)"
proof -
  have "2 powi 1 \<le> pi" using pi_ge_two by simp
  moreover have "pi < 2 powi (1 + 1)" using pi_less_4 by simp
  ultimately have r: "round_mag pi = of_int (rne (pi / 2 powi (1 - 52))) * 2 powi (1 - 52)"
    by (rule round_mag_binade) simp
  have "3.141591 / 2 powi (1 - 52) - 1 < pi / 2 powi (1 - 52) - 1"
    using pi_gt_3141591 by (simp add: field_simps)
  also have "\<dots> < of_int (rne (pi / 2 powi (1 - 52)))" by (rule rne_gt)
  finally have "(7074231776675438 :: real) < of_int (rne (pi / 2 powi (1 - 52)))"
    by simp
  then have "3537115888337719 / 2 ^ 50 < round_mag pi"
    unfolding r by (simp add: field_simps)
  then show ?thesis by (simp add: double_of_real_def fround_def Let_def)
qed

subsection \<open>The free store\<close>

lemma fold_max_ge: "(m::nat) \<le> fold max xs m \<and> (\<forall>x\<in>set xs. x \<le> fold max xs m)"
proof (induction xs arbitrary: m)
  case Nil
  show ?case by simp
next
  case (Cons y ys)
  have a: "max y m \<le> fold max ys (max y m)"
    and b: "\<forall>x\<in>set ys. x \<le> fold max ys (max y m)"
    using Cons [of "max y m"] by simp_all
  show ?case using a b by auto
qed

lemma fresh_notin: "fresh h \<notin> fst ` set h"
proof
  assume "fresh h \<in> fst ` set h"
  then have "fresh h \<in> set (map fst h)" by simp
  then have "fresh h \<le> fold max (map fst h) 0" using fold_max_ge by blast
  then show False by (simp add: fresh_def)
qed


lemma fresh_alloc_neq: "fresh ((fresh h, c) # h) \<noteq> fresh h"
  using fresh_notin [of "(fresh h, c) # h"] by auto


lemma filter_absent: "a \<notin> fst ` set h \<Longrightarrow> filter (\<lambda>kv. fst kv \<noteq> a) h = h"
  by (induction h) auto

lemma heap_write_Cons:
  "heap_write a c ((k, v) # h) = (if k = a then (a, c) else (k, v)) # heap_write a c h"
  by (simp add: heap_write_def)

lemma heap_write_absent: "a \<notin> fst ` set h \<Longrightarrow> heap_write a c h = h"
  by (induction h) (auto simp: heap_write_def)

subsection \<open>What the constructors build\<close>

lemmas ctor_defs =
  Shape_def Circle_def Polygon_def Rectangle_def Square_def
  Shape.defs Circle.defs Polygon.defs Rectangle.defs Trapezoid.defs

lemmas getter_defs =
  Shape_get_name_def Shape_get_name_assign_def Circle_get_area_def Circle_get_perimeter_def
  Polygon_get_area_def Polygon_get_perimeter_def Rectangle_get_perimeter_def Square_get_area_def

lemma Trapezoid_heap:
  "snd (Trapezoid pow name l s ht h) =
     (fresh h,
      Double (Some (sqrt_double (pow ((l - s) / double_of_int 2) (double_of_int 2)
                                 + pow ht (double_of_int 2))))) # h"
  "Trapezoid.m_angled_side_length (fst (Trapezoid pow name l s ht h)) = Some (fresh h)"
  by (simp_all add: Trapezoid_def new_double_def alloc_def store_double_def heap_write_Cons
        heap_write_absent fresh_notin Let_def ctor_defs)

lemma Trapezoid_fields:
  "Polygon.m_area (fst (Trapezoid pow name l s ht h)) = Some (ht * (l + s) / double_of_int 2)"
  "Polygon.m_perimeter (fst (Trapezoid pow name l s ht h)) =
     Some (s + l + double_of_int 2
                   * sqrt_double (pow ((l - s) / double_of_int 2) (double_of_int 2)
                                  + pow ht (double_of_int 2)))"
  "Shape.m_name (fst (Trapezoid pow name l s ht h)) = name"
  by (simp_all add: Trapezoid_def new_double_def alloc_def store_double_def load_double_def
        heap_write_Cons Let_def ctor_defs)

lemma Circle_accessors:
  "get_area (Circle_object (Circle name r)) out
     = (Some (r * r * PI), Circle_object (Circle name r), out)"
  "get_perimeter (Circle_object (Circle name r)) out
     = (Some (double_of_int 2 * r * PI), Circle_object (Circle name r), out)"
  by (simp_all add: ctor_defs getter_defs times_double_commute [of r "double_of_int 2"]
        del: double_of_int_numeral)

lemma Rectangle_accessors:
  "get_area (Rectangle_object (Rectangle name a b)) out
     = (Some (a * b), Rectangle_object (Rectangle name a b), out)"
  "get_perimeter (Rectangle_object (Rectangle name a b)) out
     = (Some (double_of_int 2 * (a + b)), Rectangle_object (Rectangle name a b), out)"
  by (simp_all add: ctor_defs getter_defs times_double_commute [of "a + b" "double_of_int 2"]
        del: double_of_int_numeral)

lemma Square_get_area_eq:
  "get_area (Square_object (Square name s)) out =
     (Some (s * s), Square_object (Square name s),
      out @ [Str ''The square of '', Dbl s, Str ''!'', Endl])"
  by (simp add: ctor_defs getter_defs)


subsection \<open>\<open>new\<close> and \<open>delete\<close>\<close>

lemma new_Trapezoid_heap:
  "new_expr pow (New_Trapezoid name l s ht) h =
     (fresh h,
      (fresh ((fresh h, Raw) # h),
       Double (Some (sqrt_double (pow ((l - s) / double_of_int 2) (double_of_int 2)
                                  + pow ht (double_of_int 2)))))
      # (fresh h, Object (Trapezoid_object (fst (Trapezoid pow name l s ht ((fresh h, Raw) # h)))))
      # h)"
proof -
  obtain t h2 where t: "Trapezoid pow name l s ht ((fresh h, Raw) # h) = (t, h2)"
    by (cases "Trapezoid pow name l s ht ((fresh h, Raw) # h)")
  have h2: "h2 = (fresh ((fresh h, Raw) # h),
                  Double (Some (sqrt_double (pow ((l - s) / double_of_int 2) (double_of_int 2)
                                             + pow ht (double_of_int 2)))))
                 # (fresh h, Raw) # h"
    using Trapezoid_heap(1) [of pow name l s ht "(fresh h, Raw) # h"] t by simp
  show ?thesis
    using fresh_alloc_neq [of h Raw]
    by (simp add: new_expr_def alloc_def t h2 heap_write_Cons heap_write_absent fresh_notin)
qed


text \<open>
  What the virtual destructor is for: were a Trapezoid destroyed as a Polygon, the
  destructors of Polygon and Shape alone would run and the scalar would stay allocated.
\<close>

lemma static_destruction_would_leak:
  "(case new_expr pow (New_Trapezoid name l s ht) h of
      (p, h1) \<Rightarrow>
        (case map_of h1 p of
           Some (Object obj) \<Rightarrow>
             (case run_dtors (dtor_chain Polygon_cls) obj h1 of
                Inl e \<Rightarrow> Inl e
              | Inr h' \<Rightarrow> free p h')
         | _ \<Rightarrow> Inl Invalid_delete))
   = Inr ((fresh ((fresh h, Raw) # h),
           Double (Some (sqrt_double (pow ((l - s) / double_of_int 2) (double_of_int 2)
                                      + pow ht (double_of_int 2))))) # h)"
  using fresh_alloc_neq [of h Raw]
  by (simp add: new_Trapezoid_heap free_def filter_absent fresh_notin)

lemma free_removes: "free a h = Inr h' \<Longrightarrow> map_of h' a = None"
  by (auto simp: free_def map_of_eq_None_iff split: option.splits)

text \<open>A second \<open>delete\<close> of the same pointer is an error.\<close>

lemma second_delete_is_an_error:
  assumes "delete_expr T p h = Inr h'"
  shows "delete_expr T' p h' = Inl Invalid_delete"
proof -
  have "map_of h' p = None"
    using assms
    by (auto simp: delete_expr_def Let_def dest: free_removes
          split: option.splits cell.splits sum.splits)
  then show ?thesis by (simp add: delete_expr_def)
qed



section \<open>The properties of the specification\<close>

subsection \<open>Destruction through a base-class handle\<close>



subsection \<open>The formulas\<close>



text \<open>
  C3, as amended. A Circle constructed with radius \<open>r\<close>, of any sign, returns
  \<open>r * r * PI\<close> as its area and \<open>2 * r * PI\<close> as its perimeter in the arithmetic
  of \<open>double\<close>, where \<open>PI\<close> is the constant of the program: the \<open>double\<close> of the
  literal 3.14159, which lies strictly below \<open>\<pi>\<close>.
\<close>

theorem Circle_formulas_with_program_constant:
  "fst (get_area (Circle_object (Circle name r)) out) = Some (r * r * PI)
   \<and> fst (get_perimeter (Circle_object (Circle name r)) out) = Some (double_of_int 2 * r * PI)
   \<and> PI = double_of_real 3.14159
   \<and> PI = Finite False (3537115888337719 / 2 ^ 50)
   \<and> 3537115888337719 / 2 ^ 50 < pi"
proof -
  have "fst (get_area (Circle_object (Circle name r)) out) = Some (r * r * PI)"
    and "fst (get_perimeter (Circle_object (Circle name r)) out)
           = Some (double_of_int 2 * r * PI)"
    by (simp_all only: Circle_accessors fst_conv)
  then show ?thesis
    using PI_def PI_value PI_value_less_pi by blast
qed

text \<open>
  With \<open>\<pi>\<close> the formulas fail: the Circle of radius 1 does not have the \<open>double\<close>
  nearest to \<open>\<pi>\<close> as its area.
\<close>

theorem Circle_radius_1_counterexample:
  "\<not> (fst (get_area (Circle_object (Circle ''the hole'' (double_of_int 1))) [])
         = Some (double_of_real (1\<^sup>2 * pi))
      \<and> fst (get_perimeter (Circle_object (Circle ''the hole'' (double_of_int 1))) [])
         = Some (double_of_real (2 * 1 * pi)))"
proof -
  have "fst (get_area (Circle_object (Circle ''the hole'' (double_of_int 1))) []) = Some PI"
    by (simp only: Circle_accessors fst_conv one_times_PI)
  then have "fst (get_area (Circle_object (Circle ''the hole'' (double_of_int 1))) [])
               = Some (Finite False (3537115888337719 / 2 ^ 50))"
    by (simp only: PI_value)
  then show ?thesis using double_of_pi_neq by simp
qed

text \<open>
  C4. A Rectangle constructed with sides \<open>a\<close> and \<open>b\<close> returns \<open>a * b\<close> as its area
  and \<open>2 * (a + b)\<close> as its perimeter, in the arithmetic of \<open>double\<close>: 12 and 14 for
  the sides 3 and 4, and \<open>2 ^ 54\<close> as the perimeter for the sides \<open>2 ^ 53\<close> and 1,
  whose sum rounds to \<open>2 ^ 53\<close>.
\<close>

theorem Rectangle_formulas:
  "fst (get_area (Rectangle_object (Rectangle name a b)) out) = Some (a * b)
   \<and> fst (get_perimeter (Rectangle_object (Rectangle name a b)) out)
     = Some (double_of_int 2 * (a + b))
   \<and> fst (get_area (Rectangle_object (Rectangle name (double_of_int 3) (double_of_int 4))) out)
     = Some (double_of_int 12)
   \<and> fst (get_perimeter
        (Rectangle_object (Rectangle name (double_of_int 3) (double_of_int 4))) out)
     = Some (double_of_int 14)
   \<and> fst (get_perimeter
        (Rectangle_object (Rectangle name (Finite False (2 ^ 53)) (double_of_int 1))) out)
     = Some (Finite False (2 ^ 54))"
proof -
  have a: "double_of_int 3 * double_of_int 4 = double_of_int 12"
    and b: "double_of_int 2 * (double_of_int 3 + double_of_int 4) = double_of_int 14"
    by simp_all
  have "Finite False (2 ^ 53) + double_of_int 1 = fround False (2 ^ 53 + 1)"
    by simp
  then have c: "Finite False (2 ^ 53) + double_of_int 1 = Finite False (2 ^ 53)"
    by (simp only: fround_2_53_plus_1)
  have "double_of_int 2 * Finite False (2 ^ 53) = fround False (2 ^ 54)"
    by simp
  then have d: "double_of_int 2 * Finite False (2 ^ 53) = Finite False (2 ^ 54)"
    by (simp only: fround_2_54)
  show ?thesis
    by (simp only: Rectangle_accessors fst_conv a b c d simp_thms)
qed

text \<open>
  C5. A Square of side \<open>s\<close> returns the perimeter of the Rectangle of sides \<open>s\<close> and
  \<open>s\<close>, and prints nothing for it. Its \<open>get_area\<close> returns \<open>s * s\<close> and appends the
  one line "The square of \<open>s\<close>!" to the output; \<open>n\<close> calls in a row leave the object
  as it was and append \<open>n\<close> such lines. The product is the one of \<open>double\<close>: 1 for
  the side 1, and \<open>1441151880758559 / 2 ^ 57\<close> for the side 0.1.
\<close>

theorem Square_perimeter_area_and_line:
  "fst (get_perimeter (Square_object (Square name s)) out)
     = fst (get_perimeter (Rectangle_object (Rectangle name s s)) out)
   \<and> snd (snd (get_perimeter (Square_object (Square name s)) out)) = out
   \<and> fst (get_area (Square_object (Square name s)) out) = Some (s * s)
   \<and> snd (snd (get_area (Square_object (Square name s)) out))
     = out @ [Str ''The square of '', Dbl s, Str ''!'', Endl]
   \<and> ((\<lambda>(obj, out). snd (get_area obj out)) ^^ n) (Square_object (Square name s), out)
     = (Square_object (Square name s),
        out @ concat (replicate n [Str ''The square of '', Dbl s, Str ''!'', Endl]))
   \<and> fst (get_area (Square_object (Square name (double_of_int 1))) out)
     = Some (double_of_int 1)
   \<and> fst (get_area (Square_object (Square name (double_of_real 0.1))) out)
     = Some (Finite False (1441151880758559 / 2 ^ 57))"
proof -
  let ?line = "[Str ''The square of '', Dbl s, Str ''!'', Endl]"
  have "((\<lambda>(obj, out). snd (get_area obj out)) ^^ n) (Square_object (Square name s), out)
          = (Square_object (Square name s), out @ concat (replicate n ?line))"
  proof (induction n)
    case 0
    show ?case by simp
  next
    case (Suc n)
    have "concat (replicate n ?line) @ ?line = concat (replicate (Suc n) ?line)"
      by (induction n) simp_all
    then show ?case
      using Suc by (simp add: Square_get_area_eq del: replicate.simps get_area.simps)
  qed
  moreover have "fst (get_perimeter (Square_object (Square name s)) out)
                   = fst (get_perimeter (Rectangle_object (Rectangle name s s)) out)"
    and "snd (snd (get_perimeter (Square_object (Square name s)) out)) = out"
    by (simp_all add: Square_def getter_defs)
  moreover have "double_of_int 1 * double_of_int 1 = double_of_int 1"
    by simp
  moreover have "fst (get_area (Square_object (Square name (double_of_real 0.1))) out)
                   = Some (Finite False (1441151880758559 / 2 ^ 57))"
    by (simp only: Square_get_area_eq fst_conv one_tenth_squared)
  ultimately show ?thesis
    by (simp add: Square_get_area_eq del: get_area.simps double_of_int_1)
qed

subsection \<open>The name\<close>

text \<open>
  C6. For every variant \<open>get_name\<close> returns the name passed to the constructor, and
  calls of \<open>get_area\<close> and \<open>get_perimeter\<close> do not change what it returns; after an
  assignment through the reference that \<open>get_name\<close> returns, it returns the value
  assigned.
\<close>

theorem get_name_returns_constructor_argument:
  "get_name (Circle_object (Circle name r)) = name
   \<and> get_name (Polygon_object (Polygon name n)) = name
   \<and> get_name (Rectangle_object (Rectangle name a b)) = name
   \<and> get_name (Square_object (Square name s)) = name
   \<and> get_name (Trapezoid_object (fst (Trapezoid pow name l sh ht h))) = name
   \<and> get_name (fst (snd (get_area obj out))) = get_name obj
   \<and> get_name (fst (snd (get_perimeter obj out))) = get_name obj
   \<and> get_name (get_name_assign obj v) = v"
  by (cases obj) (simp_all add: Trapezoid_fields getter_defs, simp_all add: ctor_defs)

subsection \<open>The frame of the accessors\<close>

text \<open>
  C7. For every object, \<open>get_area\<close> and \<open>get_perimeter\<close> return the object with
  every member as it was; \<open>get_perimeter\<close> writes nothing, and \<open>get_area\<close> writes
  nothing but the line of a Square; a second call of either, after either, returns
  the value of the first.
\<close>

theorem accessors_leave_object_unchanged:
  "fst (snd (get_area obj out)) = obj
   \<and> fst (snd (get_perimeter obj out)) = obj
   \<and> snd (snd (get_perimeter obj out)) = out
   \<and> snd (snd (get_area obj out))
     = out @ (case obj of
                Square_object q \<Rightarrow>
                  [Str ''The square of '', Dbl (Rectangle.m_side1 q), Str ''!'', Endl]
              | _ \<Rightarrow> [])
   \<and> fst (get_area (fst (snd (get_area obj out))) (snd (snd (get_area obj out))))
     = fst (get_area obj out)
   \<and> fst (get_perimeter (fst (snd (get_perimeter obj out)))
            (snd (snd (get_perimeter obj out))))
     = fst (get_perimeter obj out)
   \<and> fst (get_perimeter (fst (snd (get_area obj out))) (snd (snd (get_area obj out))))
     = fst (get_perimeter obj out)
   \<and> fst (get_area (fst (snd (get_perimeter obj out))) (snd (snd (get_perimeter obj out))))
     = fst (get_area obj out)"
  by (cases obj) (simp_all add: getter_defs)

subsection \<open>The constant\<close>

text \<open>
  C9. The Circle computes with the literal 3.14159: for every radius \<open>r\<close> its area is
  \<open>r * r * 3.14159\<close> and its perimeter \<open>2 * r * 3.14159\<close> in the arithmetic of
  \<open>double\<close>. The Circle of radius 1 has the area 3.14159, that is the \<open>double\<close>
  \<open>3537115888337719 / 2 ^ 50\<close>, which is neither \<open>\<pi>\<close> nor the \<open>double\<close> nearest to
  \<open>\<pi>\<close>; the Circle of radius 3 has the perimeter \<open>2652836916253289 / 2 ^ 47\<close>, the
  product rounded.
\<close>

theorem Circle_computes_with_literal:
  "fst (get_area (Circle_object (Circle name r)) out) = Some (r * r * double_of_real 3.14159)
   \<and> fst (get_perimeter (Circle_object (Circle name r)) out)
     = Some (double_of_int 2 * r * double_of_real 3.14159)
   \<and> fst (get_area (Circle_object (Circle name (double_of_int 1))) out)
     = Some (double_of_real 3.14159)
   \<and> double_of_real 3.14159 = Finite False (3537115888337719 / 2 ^ 50)
   \<and> 3537115888337719 / 2 ^ 50 \<noteq> pi
   \<and> double_of_real 3.14159 \<noteq> double_of_real pi
   \<and> fst (get_perimeter (Circle_object (Circle name (double_of_int 3))) out)
     = Some (Finite False (2652836916253289 / 2 ^ 47))"
proof -
  have a: "fst (get_area (Circle_object (Circle name r)) out) = Some (r * r * PI)"
    and b: "fst (get_perimeter (Circle_object (Circle name r)) out)
              = Some (double_of_int 2 * r * PI)"
    and c: "fst (get_area (Circle_object (Circle name (double_of_int 1))) out) = Some PI"
    by (simp_all only: Circle_accessors fst_conv one_times_PI)
  have "double_of_int 2 * double_of_int 3 = double_of_int 3 * double_of_int 2"
    by (rule times_double_commute)
  then have d: "fst (get_perimeter (Circle_object (Circle name (double_of_int 3))) out)
                  = Some (Finite False (2652836916253289 / 2 ^ 47))"
    by (simp only: Circle_accessors fst_conv three_times_2_PI)
  have e: "3537115888337719 / 2 ^ 50 \<noteq> pi"
    using PI_value_less_pi by simp
  have f: "double_of_real 3.14159 \<noteq> double_of_real pi"
    using double_of_pi_neq by (simp only: literal_314159) simp
  show ?thesis
    using a b c d e f literal_314159 by (simp only: PI_def) blast
qed

subsection \<open>No validation\<close>



subsection \<open>The two files\<close>

lemmas ctor_defs_RAII =
  Shape_RAII_def Circle_RAII_def Polygon_RAII_def Rectangle_RAII_def Square_RAII_def
  PI_RAII_def Shape_RAII.defs Circle_RAII.defs Polygon_RAII.defs Rectangle_RAII.defs
  Trapezoid_RAII.defs

lemmas getter_defs_RAII =
  Shape_get_name_RAII_def Circle_get_area_RAII_def Circle_get_perimeter_RAII_def
  Polygon_get_area_RAII_def Polygon_get_perimeter_RAII_def Rectangle_get_perimeter_RAII_def
  Square_get_area_RAII_def

lemma Trapezoid_RAII_fields:
  "Polygon_RAII.m_area (fst (Trapezoid_RAII pow name l s ht h))
     = Some (ht * (l + s) / double_of_int 2)"
  "Polygon_RAII.m_perimeter (fst (Trapezoid_RAII pow name l s ht h)) =
     Some (s + l + double_of_int 2
                   * sqrt_double (pow ((l - s) / double_of_int 2) (double_of_int 2)
                                  + pow ht (double_of_int 2)))"
  "Shape_RAII.m_name (fst (Trapezoid_RAII pow name l s ht h)) = name"
  "snd (Trapezoid_RAII pow name l s ht h) =
     (fresh h,
      Double (Some (sqrt_double (pow ((l - s) / double_of_int 2) (double_of_int 2)
                                 + pow ht (double_of_int 2))))) # h"
  by (simp_all add: Trapezoid_RAII_def new_double_def alloc_def store_double_def
        load_double_def heap_write_Cons heap_write_absent fresh_notin Let_def
        ctor_defs_RAII)

text \<open>
  C10. For the same constructor call on the same free store, the classes of
  Shape\_RAII.cc and those of Shape.cc return the same name, the same area and the same
  perimeter, write the same output (the line of the Square too) and leave the same
  free store; the two constants are equal. A Polygon constructed as such has neither
  area nor perimeter assigned, in the one file as in the other.
\<close>

theorem the_two_hierarchies_agree:
  "get_name_RAII (fst (run_ctor_RAII pow c h)) = get_name (fst (run_ctor pow c h))
   \<and> fst (get_area_RAII (fst (run_ctor_RAII pow c h)) out)
     = fst (get_area (fst (run_ctor pow c h)) out)
   \<and> snd (snd (get_area_RAII (fst (run_ctor_RAII pow c h)) out))
     = snd (snd (get_area (fst (run_ctor pow c h)) out))
   \<and> fst (get_perimeter_RAII (fst (run_ctor_RAII pow c h)) out)
     = fst (get_perimeter (fst (run_ctor pow c h)) out)
   \<and> snd (snd (get_perimeter_RAII (fst (run_ctor_RAII pow c h)) out))
     = snd (snd (get_perimeter (fst (run_ctor pow c h)) out))
   \<and> snd (run_ctor_RAII pow c h) = snd (run_ctor pow c h)
   \<and> PI_RAII = PI
   \<and> fst (get_area_RAII (fst (run_ctor_RAII pow (New_Polygon name n) h)) out) = None
   \<and> fst (get_area (fst (run_ctor pow (New_Polygon name n) h)) out) = None
   \<and> fst (get_perimeter_RAII (fst (run_ctor_RAII pow (New_Polygon name n) h)) out) = None
   \<and> fst (get_perimeter (fst (run_ctor pow (New_Polygon name n) h)) out) = None"
proof -
  have bare: "Polygon_RAII.m_area (Polygon_RAII name n) = None"
    "Polygon.m_area (Polygon name n) = None"
    "Polygon_RAII.m_perimeter (Polygon_RAII name n) = None"
    "Polygon.m_perimeter (Polygon name n) = None"
    by (simp_all add: ctor_defs ctor_defs_RAII)
  have PI: "PI_RAII = PI" by (simp only: PI_def PI_RAII_def)
  show ?thesis
  proof (cases c)
    case (New_Trapezoid name' l s ht)
    then show ?thesis
      by (simp add: Trapezoid_fields Trapezoid_heap Trapezoid_RAII_fields getter_defs
            getter_defs_RAII PI bare split_beta)
  qed (simp_all add: getter_defs getter_defs_RAII bare PI,
       simp_all add: ctor_defs ctor_defs_RAII PI_def)
qed

end
